theory Spec2Isabelle
  imports Complex_Main "HOL-Library.Word"
begin

section \<open>The Lumina engine hook (src/hooks/useLuminaEngine.ts)\<close>

text \<open>
  The hook drives an external transcoding engine (an \<open>FFmpeg\<close> object with a virtual
  file system) through load, write, exec, read and delete calls, and keeps a React
  state record \<open>{isLoaded, isProcessing, progress, error}\<close>. JavaScript strings are
  modelled as \<open>string\<close> (ASCII text), typed arrays as lists of bytes, a thrown value
  as a \<open>js_thrown\<close>, and an \<open>async\<close> function as a function from the world before the
  call to its settled result (\<open>Inl\<close> the rejection) and the world after.
\<close>

subsection \<open>Values\<close>

type_synonym bytes = "8 word list"

text \<open>What \<open>throw\<close> carries: an \<open>Error\<close> with its message, or any other value.\<close>

datatype js_thrown = Error string | NonError string

text \<open>\<open>err instanceof Error ? err.message : fallback\<close>\<close>

fun errorMessage :: "js_thrown \<Rightarrow> string \<Rightarrow> string" where
  "errorMessage (Error m) fallback = m"
| "errorMessage (NonError v) fallback = fallback"

text \<open>\<open>FileData = Uint8Array | string\<close>, the result type of the engine's \<open>readFile\<close>.\<close>

datatype FileData = Uint8Array bytes | Text string

record File =
  name :: string
  content :: bytes

text \<open>
  A property read from the \<open>mimeTypes\<close> object literal is a string of the table or,
  for the two lower-case keys every object literal inherits, a value of
  \<open>Object.prototype\<close>.
\<close>

datatype js_value = Str string | ObjectConstructor | ObjectPrototype

record Blob =
  blobParts :: bytes
  blobType :: js_value

subsection \<open>getExtension and getMimeType\<close>

text \<open>
  \<open>filename.match(/\.[^.]+$/)\<close>: a dot followed by one or more characters other than a
  dot, up to the end of the string; \<open>'.mp4'\<close> when there is no such match.
\<close>

definition getExtension :: "string \<Rightarrow> string" where
  "getExtension filename =
     (let tail = rev (takeWhile (\<lambda>c. c \<noteq> CHR ''.'') (rev filename))
      in if tail \<noteq> [] \<and> length tail < length filename then CHR ''.'' # tail
         else ''.mp4'')"

text \<open>\<open>toLowerCase\<close> on ASCII text: the 26 capital letters change, nothing else does.\<close>

definition lowerChar :: "char \<Rightarrow> char" where
  "lowerChar c =
     (case map_of (zip ''ABCDEFGHIJKLMNOPQRSTUVWXYZ'' ''abcdefghijklmnopqrstuvwxyz'') c of
        Some l \<Rightarrow> l
      | None \<Rightarrow> c)"

definition toLowerCase :: "string \<Rightarrow> string" where
  "toLowerCase s = map lowerChar s"

definition mimeTypes :: "(string \<times> string) list" where
  "mimeTypes =
     [(''.mp4'', ''video/mp4''),
      (''.webm'', ''video/webm''),
      (''.mov'', ''video/quicktime''),
      (''.avi'', ''video/x-msvideo''),
      (''.mkv'', ''video/x-matroska''),
      (''.mp3'', ''audio/mpeg''),
      (''.wav'', ''audio/wav''),
      (''.ogg'', ''audio/ogg''),
      (''.png'', ''image/png''),
      (''.jpg'', ''image/jpeg''),
      (''.jpeg'', ''image/jpeg''),
      (''.gif'', ''image/gif''),
      (''.webp'', ''image/webp'')]"

text \<open>
  \<open>mimeTypes[extension.toLowerCase()] || 'application/octet-stream'\<close>. No string of
  the table is empty, so the fallback is taken exactly for a key that is neither in
  the table nor inherited.
\<close>

definition getMimeType :: "string \<Rightarrow> js_value" where
  "getMimeType extension =
     (let key = toLowerCase extension
      in case map_of mimeTypes key of
           Some m \<Rightarrow> Str m
         | None \<Rightarrow>
             if key = ''constructor'' then ObjectConstructor
             else if key = ''__proto__'' then ObjectPrototype
             else Str ''application/octet-stream'')"

subsection \<open>Options\<close>

record SanitizeOptions =
  stripMetadata :: "bool option"
  deterministicEncoding :: "bool option"
  outputFormat :: "string option"

record PIIRemovalOptions =
  piiOutputFormat :: "string option"

record PrivacyGrainOptions =
  grainOutputFormat :: "string option"
  grainStripMetadata :: "bool option"

text \<open>A destructuring default \<open>x = d\<close> applies when the property is undefined.\<close>

fun withDefault :: "'a option \<Rightarrow> 'a \<Rightarrow> 'a" where
  "withDefault None d = d"
| "withDefault (Some v) d = v"

text \<open>\<open>outputFormat || getExtension(file.name)\<close>: undefined and \<open>''\<close> are falsy.\<close>

fun orElse :: "string option \<Rightarrow> string \<Rightarrow> string" where
  "orElse None d = d"
| "orElse (Some s) d = (if s = [] then d else s)"

definition inputFileName :: "File \<Rightarrow> string" where
  "inputFileName file = ''input'' @ getExtension (name file)"

definition outputExt :: "File \<Rightarrow> string option \<Rightarrow> string" where
  "outputExt file fmt = orElse fmt (getExtension (name file))"

definition outputFileName :: "File \<Rightarrow> string option \<Rightarrow> string" where
  "outputFileName file fmt = ''output'' @ outputExt file fmt"

subsection \<open>The argument sequences\<close>

text \<open>Lines 99 to 111 of \<open>sanitize\<close>: each \<open>push\<close> appends at the end.\<close>

definition sanitizeArgs :: "string \<Rightarrow> bool \<Rightarrow> bool \<Rightarrow> string \<Rightarrow> string list" where
  "sanitizeArgs inName strip deterministic outName =
     (let args0 = [''-i'', inName];
          args1 = (if strip then args0 @ [''-map_metadata'', ''-1''] else args0);
          args2 = (if deterministic
                   then ((args1 @ [''-fflags'', ''+bitexact''])
                           @ [''-flags:v'', ''+bitexact''])
                           @ [''-flags:a'', ''+bitexact'']
                   else args1)
      in args2 @ [''-y'', outName])"

text \<open>Lines 211 to 218 of \<open>applyPrivacyGrain\<close>.\<close>

definition privacyGrainArgs :: "string \<Rightarrow> bool \<Rightarrow> string \<Rightarrow> string list" where
  "privacyGrainArgs inName strip outName =
     (let args0 = [''-i'', inName];
          args1 = (if strip then args0 @ [''-map_metadata'', ''-1''] else args0);
          args2 = args1 @ [''-vf'', ''noise=alls=3:allf=t+u'']
      in args2 @ [''-y'', outName])"

text \<open>
  The sequence a \<open>sanitize\<close> call, and an \<open>applyPrivacyGrain\<close> call, builds from its
  arguments: the destructuring of the options, then the pushes.
\<close>

definition sanitizeCommand :: "File \<Rightarrow> SanitizeOptions option \<Rightarrow> string list" where
  "sanitizeCommand file options =
     (let opts = withDefault options
                   \<lparr>stripMetadata = None, deterministicEncoding = None, outputFormat = None\<rparr>
      in sanitizeArgs (inputFileName file)
           (withDefault (stripMetadata opts) True)
           (withDefault (deterministicEncoding opts) True)
           (outputFileName file (outputFormat opts)))"

definition privacyGrainCommand :: "File \<Rightarrow> PrivacyGrainOptions option \<Rightarrow> string list" where
  "privacyGrainCommand file options =
     (let opts = withDefault options \<lparr>grainOutputFormat = None, grainStripMetadata = None\<rparr>
      in privacyGrainArgs (inputFileName file)
           (withDefault (grainStripMetadata opts) True)
           (outputFileName file (grainOutputFormat opts)))"

subsection \<open>The hook's state and the engine objects\<close>

record LuminaEngineState =
  isLoaded :: bool
  isProcessing :: bool
  progress :: int
  error :: "string option"

text \<open>
  An \<open>FFmpeg\<close> object: its \<open>loaded\<close> flag and its virtual file system. Objects made by
  \<open>new FFmpeg()\<close> live in a store, a list indexed by address, because \<open>load\<close> keeps a
  local reference to the object it made while \<open>ffmpegRef.current\<close> may be overwritten.
\<close>

type_synonym vfs = "string \<rightharpoonup> FileData"

record FFmpeg =
  loaded :: bool
  files :: vfs

record world =
  engines :: "FFmpeg list"
  ffmpegRef :: "nat option"
  state :: LuminaEngineState

text \<open>The \<open>useState\<close> initial value and \<open>useRef(null)\<close>.\<close>

definition initialState :: LuminaEngineState where
  "initialState = \<lparr>isLoaded = False, isProcessing = False, progress = 0, error = None\<rparr>"

definition initialWorld :: world where
  "initialWorld = \<lparr>engines = [], ffmpegRef = None, state = initialState\<rparr>"

definition setState :: "(LuminaEngineState \<Rightarrow> LuminaEngineState) \<Rightarrow> world \<Rightarrow> world" where
  "setState f w = w\<lparr>state := f (state w)\<rparr>"

text \<open>\<open>ffmpegRef.current\<close> with the object it points to, when there is one.\<close>

definition current :: "world \<Rightarrow> (nat \<times> FFmpeg) option" where
  "current w =
     (case ffmpegRef w of
        None \<Rightarrow> None
      | Some a \<Rightarrow> if a < length (engines w) then Some (a, engines w ! a) else None)"

text \<open>\<open>ffmpegRef.current?.loaded\<close>, read as a condition.\<close>

definition currentLoaded :: "world \<Rightarrow> bool" where
  "currentLoaded w = (case current w of None \<Rightarrow> False | Some (a, e) \<Rightarrow> loaded e)"

definition filesOf :: "nat \<Rightarrow> world \<Rightarrow> vfs" where
  "filesOf a w = (if a < length (engines w) then files (engines w ! a) else Map.empty)"

definition setFiles :: "nat \<Rightarrow> vfs \<Rightarrow> world \<Rightarrow> world" where
  "setFiles a fs w = w\<lparr>engines := (engines w)[a := (engines w ! a)\<lparr>files := fs\<rparr>]\<rparr>"

subsection \<open>The external engine\<close>

text \<open>
  The engine (\<open>@ffmpeg/ffmpeg\<close>, \<open>@ffmpeg/util\<close>) is not part of the repository. It is a
  parameter of the model: a record saying, for each call the hook makes, whether the
  call throws, which progress fractions \<open>exec\<close> reports and what \<open>exec\<close> does to the
  virtual file system. A write stores the bytes under the name, a read returns what is
  stored under the name, a delete removes the name, and a read or a delete of a name
  that is not stored throws \<open>missingFile\<close>, as a file system does.
\<close>

record engine =
  loadResult :: "js_thrown option"
  fetchFileResult :: "File \<Rightarrow> js_thrown + bytes"
  writeFileThrows :: "string \<Rightarrow> js_thrown option"
  execProgress :: "string list \<Rightarrow> real list"
  execResult :: "string list \<Rightarrow> vfs \<Rightarrow> vfs \<times> js_thrown option"
  readFileThrows :: "string \<Rightarrow> js_thrown option"
  deleteFileThrows :: "string \<Rightarrow> js_thrown option"

definition missingFile :: js_thrown where
  "missingFile = Error ''FS error''"

text \<open>\<open>Math.round(x)\<close>: the nearest integer, a tie going up.\<close>

definition mathRound :: "real \<Rightarrow> int" where
  "mathRound x = \<lfloor>x + 1 / 2\<rfloor>"

text \<open>The listener of line 46, registered on every engine object \<open>load\<close> makes.\<close>

definition onProgress :: "real \<Rightarrow> LuminaEngineState \<Rightarrow> LuminaEngineState" where
  "onProgress p prev = prev\<lparr>progress := mathRound (p * 100)\<rparr>"

text \<open>
  The value of \<open>progress\<close> after the listener has handled the fractions \<open>ps\<close> in
  order, starting from \<open>p0\<close>: the rounding of the last one, or \<open>p0\<close> when there is none.
\<close>

definition lastReported :: "int \<Rightarrow> real list \<Rightarrow> int" where
  "lastReported p0 ps = last (p0 # map (\<lambda>p. mathRound (p * 100)) ps)"

definition writeFile ::
  "engine \<Rightarrow> nat \<Rightarrow> string \<Rightarrow> bytes \<Rightarrow> world \<Rightarrow> (js_thrown + unit) \<times> world" where
  "writeFile env a path data w =
     (case writeFileThrows env path of
        Some t \<Rightarrow> (Inl t, w)
      | None \<Rightarrow> (Inr (), setFiles a ((filesOf a w)(path \<mapsto> Uint8Array data)) w))"

definition exec ::
  "engine \<Rightarrow> nat \<Rightarrow> string list \<Rightarrow> world \<Rightarrow> (js_thrown + unit) \<times> world" where
  "exec env a args w =
     (let w1 = foldl (\<lambda>v p. setState (onProgress p) v) w (execProgress env args);
          (fs, thrown) = execResult env args (filesOf a w1);
          w2 = setFiles a fs w1
      in case thrown of Some t \<Rightarrow> (Inl t, w2) | None \<Rightarrow> (Inr (), w2))"

definition readFile :: "engine \<Rightarrow> nat \<Rightarrow> string \<Rightarrow> world \<Rightarrow> js_thrown + FileData" where
  "readFile env a path w =
     (case readFileThrows env path of
        Some t \<Rightarrow> Inl t
      | None \<Rightarrow> (case filesOf a w path of None \<Rightarrow> Inl missingFile | Some d \<Rightarrow> Inr d))"

definition deleteFile ::
  "engine \<Rightarrow> nat \<Rightarrow> string \<Rightarrow> world \<Rightarrow> (js_thrown + unit) \<times> world" where
  "deleteFile env a path w =
     (case deleteFileThrows env path of
        Some t \<Rightarrow> (Inl t, w)
      | None \<Rightarrow>
          (case filesOf a w path of
             None \<Rightarrow> (Inl missingFile, w)
           | Some d \<Rightarrow> (Inr (), setFiles a ((filesOf a w)(path := None)) w)))"

text \<open>
  \<open>data instanceof Uint8Array ? data : new TextEncoder().encode(data)\<close>, copied by
  \<open>new Uint8Array(...)\<close>: the bytes of the data.
\<close>

fun toUint8Array :: "FileData \<Rightarrow> bytes" where
  "toUint8Array (Uint8Array b) = b"
| "toUint8Array (Text s) = map (\<lambda>c. of_char c) s"

subsection \<open>load\<close>

text \<open>
  \<open>load\<close> runs without interruption up to its first \<open>await\<close> (\<open>loadEnter\<close>): it
  returns at once when the referenced engine is loaded, and otherwise makes a new
  engine object, stores it in \<open>ffmpegRef.current\<close> and starts fetching and loading the
  core. When that settles, the call resumes (\<open>loadResume\<close>) with its own object: the
  engine has set the object's \<open>loaded\<close> flag on success, and the \<open>catch\<close> block
  records the message and throws the value again on failure.
\<close>

datatype loadStep = Returned | Awaiting nat

definition newFFmpeg :: FFmpeg where
  "newFFmpeg = \<lparr>loaded = False, files = Map.empty\<rparr>"

definition loadEnter :: "world \<Rightarrow> loadStep \<times> world" where
  "loadEnter w =
     (if currentLoaded w then (Returned, setState (\<lambda>prev. prev\<lparr>isLoaded := True\<rparr>) w)
      else (Awaiting (length (engines w)),
            w\<lparr>engines := engines w @ [newFFmpeg], ffmpegRef := Some (length (engines w))\<rparr>))"

definition loadResume :: "nat \<Rightarrow> js_thrown option \<Rightarrow> world \<Rightarrow> (js_thrown + unit) \<times> world" where
  "loadResume a result w =
     (case result of
        None \<Rightarrow>
          (Inr (),
           setState (\<lambda>prev. prev\<lparr>isLoaded := True, error := None\<rparr>)
             (w\<lparr>engines := (engines w)[a := (engines w ! a)\<lparr>loaded := True\<rparr>]\<rparr>))
      | Some err \<Rightarrow>
          (Inl err,
           setState (\<lambda>prev. prev\<lparr>error := Some (errorMessage err ''Failed to load FFmpeg'')\<rparr>) w))"

text \<open>A \<open>load\<close> call that nothing else interleaves with.\<close>

definition load :: "engine \<Rightarrow> world \<Rightarrow> (js_thrown + unit) \<times> world" where
  "load env w =
     (case loadEnter w of
        (Returned, w1) \<Rightarrow> (Inr (), w1)
      | (Awaiting a, w1) \<Rightarrow> loadResume a (loadResult env) w1)"

subsection \<open>sanitize and applyPrivacyGrain\<close>

definition notLoaded :: js_thrown where
  "notLoaded = Error ''FFmpeg not loaded. Call load() first.''"

text \<open>The three state updaters of lines 90, 123 and 128 (and 202, 230 and 235).\<close>

definition processingStarted :: "LuminaEngineState \<Rightarrow> LuminaEngineState" where
  "processingStarted prev = prev\<lparr>isProcessing := True, progress := 0, error := None\<rparr>"

definition processingDone :: "LuminaEngineState \<Rightarrow> LuminaEngineState" where
  "processingDone prev = prev\<lparr>isProcessing := False, progress := 100\<rparr>"

definition processingFailed :: "string \<Rightarrow> LuminaEngineState \<Rightarrow> LuminaEngineState" where
  "processingFailed msg prev = prev\<lparr>isProcessing := False, error := Some msg\<rparr>"

text \<open>
  Lines 84 to 90, and the same lines 196 to 202: what a call does before its first
  \<open>await\<close>. It throws when the referenced engine is not loaded; otherwise it keeps the
  engine (its address) and resets the status.
\<close>

definition enter :: "world \<Rightarrow> (js_thrown + nat) \<times> world" where
  "enter w =
     (case current w of
        None \<Rightarrow> (Inl notLoaded, w)
      | Some (a, ffmpeg) \<Rightarrow>
          if \<not> loaded ffmpeg then (Inl notLoaded, w)
          else (Inr a, setState processingStarted w))"

text \<open>
  The \<open>try\<close> block, from the write of the input to the return of the blob. It is the
  same in both operations but for the argument sequence, which is its parameter here.
\<close>

definition tryBlock ::
  "engine \<Rightarrow> nat \<Rightarrow> File \<Rightarrow> string option \<Rightarrow> string list \<Rightarrow> world \<Rightarrow> (js_thrown + Blob) \<times> world" where
  "tryBlock env a file fmt ffmpegArgs w =
     (case fetchFileResult env file of
        Inl t \<Rightarrow> (Inl t, w)
      | Inr data \<Rightarrow>
     (case writeFile env a (inputFileName file) data w of
        (Inl t, w1) \<Rightarrow> (Inl t, w1)
      | (Inr u, w1) \<Rightarrow>
     (case exec env a ffmpegArgs w1 of
        (Inl t, w2) \<Rightarrow> (Inl t, w2)
      | (Inr u, w2) \<Rightarrow>
     (case readFile env a (outputFileName file fmt) w2 of
        Inl t \<Rightarrow> (Inl t, w2)
      | Inr d \<Rightarrow>
     (case deleteFile env a (inputFileName file) w2 of
        (Inl t, w3) \<Rightarrow> (Inl t, w3)
      | (Inr u, w3) \<Rightarrow>
     (case deleteFile env a (outputFileName file fmt) w3 of
        (Inl t, w4) \<Rightarrow> (Inl t, w4)
      | (Inr u, w4) \<Rightarrow>
          (Inr \<lparr>blobParts = toUint8Array d, blobType = getMimeType (outputExt file fmt)\<rparr>,
           setState processingDone w4)))))))"


text \<open>The \<open>catch\<close> block: record the message, throw the value again.\<close>

definition catchBlock :: "string \<Rightarrow> (js_thrown + Blob) \<times> world \<Rightarrow> (js_thrown + Blob) \<times> world" where
  "catchBlock fallback r =
     (case r of
        (Inl err, w) \<Rightarrow> (Inl err, setState (processingFailed (errorMessage err fallback)) w)
      | (Inr blob, w) \<Rightarrow> (Inr blob, w))"

definition sanitize ::
  "engine \<Rightarrow> File \<Rightarrow> SanitizeOptions option \<Rightarrow> world \<Rightarrow> (js_thrown + Blob) \<times> world" where
  "sanitize env file options w =
     (let opts = withDefault options
                   \<lparr>stripMetadata = None, deterministicEncoding = None, outputFormat = None\<rparr>;
          strip = withDefault (stripMetadata opts) True;
          deterministic = withDefault (deterministicEncoding opts) True;
          fmt = outputFormat opts
      in case enter w of
           (Inl t, w0) \<Rightarrow> (Inl t, w0)
         | (Inr a, w0) \<Rightarrow>
             catchBlock ''Sanitization failed''
               (tryBlock env a file fmt
                  (sanitizeArgs (inputFileName file) strip deterministic (outputFileName file fmt))
                  w0))"

definition sanitizeForCI ::
  "engine \<Rightarrow> File \<Rightarrow> string option \<Rightarrow> world \<Rightarrow> (js_thrown + Blob) \<times> world" where
  "sanitizeForCI env file fmt w =
     sanitize env file
       (Some \<lparr>stripMetadata = Some True, deterministicEncoding = Some True, outputFormat = fmt\<rparr>) w"

definition removePII ::
  "engine \<Rightarrow> File \<Rightarrow> PIIRemovalOptions option \<Rightarrow> world \<Rightarrow> (js_thrown + Blob) \<times> world" where
  "removePII env file options w =
     (let opts = withDefault options \<lparr>piiOutputFormat = None\<rparr>
      in sanitize env file
           (Some \<lparr>stripMetadata = Some True, deterministicEncoding = Some True,
                  outputFormat = piiOutputFormat opts\<rparr>) w)"

definition applyPrivacyGrain ::
  "engine \<Rightarrow> File \<Rightarrow> PrivacyGrainOptions option \<Rightarrow> world \<Rightarrow> (js_thrown + Blob) \<times> world" where
  "applyPrivacyGrain env file options w =
     (let opts = withDefault options \<lparr>grainOutputFormat = None, grainStripMetadata = None\<rparr>;
          fmt = grainOutputFormat opts;
          strip = withDefault (grainStripMetadata opts) True
      in case enter w of
           (Inl t, w0) \<Rightarrow> (Inl t, w0)
         | (Inr a, w0) \<Rightarrow>
             catchBlock ''Privacy grain failed''
               (tryBlock env a file fmt
                  (privacyGrainArgs (inputFileName file) strip (outputFileName file fmt))
                  w0))"

subsection \<open>A test engine and test worlds\<close>

text \<open>
  An engine in which every call succeeds: \<open>exec\<close> reports a quarter and then all of
  the work and writes three bytes under its last argument, the output name.
\<close>

definition okEngine :: engine where
  "okEngine =
     \<lparr>loadResult = None,
      fetchFileResult = (\<lambda>f. Inr (content f)),
      writeFileThrows = (\<lambda>p. None),
      execProgress = (\<lambda>args. [1 / 4, 1]),
      execResult = (\<lambda>args fs. (fs(last args \<mapsto> Uint8Array [1, 2, 3]), None)),
      readFileThrows = (\<lambda>p. None),
      deleteFileThrows = (\<lambda>p. None)\<rparr>"

text \<open>The same engine with an \<open>exec\<close> that reports 40 percent and then throws.\<close>

definition execFailsEngine :: engine where
  "execFailsEngine =
     okEngine\<lparr>execProgress := (\<lambda>args. [2 / 5]),
              execResult := (\<lambda>args fs. (fs, Some (Error ''exec failed'')))\<rparr>"


definition photo :: File where
  "photo = \<lparr>name = ''photo.jpg'', content = [255, 216, 255]\<rparr>"

text \<open>The world after a successful \<open>load\<close> from the initial world.\<close>

definition loadedWorld :: world where
  "loadedWorld =
     \<lparr>engines = [\<lparr>loaded = True, files = Map.empty\<rparr>], ffmpegRef = Some 0,
      state = \<lparr>isLoaded = True, isProcessing = False, progress = 0, error = None\<rparr>\<rparr>"

text \<open>
  A world in which an operation on a \<open>.jpg\<close> file is in flight: its input is staged,
  \<open>isProcessing\<close> is true and the engine has reported 40 percent.
\<close>

definition busyWorld :: world where
  "busyWorld =
     \<lparr>engines = [\<lparr>loaded = True, files = [''input.jpg'' \<mapsto> Uint8Array [7, 7]]\<rparr>],
      ffmpegRef = Some 0,
      state = \<lparr>isLoaded = True, isProcessing = True, progress = 40, error = None\<rparr>\<rparr>"


text \<open>
  Two \<open>load\<close> calls made one after the other from the initial world, the second before
  the first has resumed.
\<close>

definition oneLoading :: world where
  "oneLoading = snd (loadEnter initialWorld)"

definition twoLoading :: world where
  "twoLoading = snd (loadEnter oneLoading)"

section \<open>Properties\<close>

subsection \<open>Helper facts\<close>

lemmas runDefs = sanitize_def applyPrivacyGrain_def enter_def current_def tryBlock_def
  catchBlock_def writeFile_def exec_def readFile_def deleteFile_def filesOf_def setFiles_def
  setState_def processingStarted_def processingDone_def processingFailed_def onProgress_def
  mathRound_def inputFileName_def outputFileName_def outputExt_def getExtension_def
  getMimeType_def toLowerCase_def lowerChar_def mimeTypes_def sanitizeArgs_def
  privacyGrainArgs_def notLoaded_def missingFile_def



lemma input_neq_output: "inputFileName f \<noteq> outputFileName f fmt"
  by (simp add: inputFileName_def outputFileName_def)


text \<open>The listener only ever changes \<open>progress\<close>.\<close>

lemma foldl_progress:
  "foldl (\<lambda>v p. setState (onProgress p) v) w ps =
     w\<lparr>state := (state w)\<lparr>progress := lastReported (progress (state w)) ps\<rparr>\<rparr>"
proof (induction ps arbitrary: w)
  case Nil
  show ?case by (simp add: lastReported_def)
next
  case (Cons p ps)
  have "foldl (\<lambda>v p. setState (onProgress p) v) w (p # ps) =
          foldl (\<lambda>v p. setState (onProgress p) v) (setState (onProgress p) w) ps"
    by simp
  also have "\<dots> = (setState (onProgress p) w)
      \<lparr>state := (state (setState (onProgress p) w))
         \<lparr>progress := lastReported (progress (state (setState (onProgress p) w))) ps\<rparr>\<rparr>"
    by (rule Cons.IH)
  also have "\<dots> = w\<lparr>state := (state w)\<lparr>progress := lastReported (progress (state w)) (p # ps)\<rparr>\<rparr>"
    by (simp add: lastReported_def setState_def onProgress_def)
  finally show ?case .
qed

text \<open>
  The sequence an operation passes to \<open>exec\<close> is \<open>sanitizeCommand\<close>, or
  \<open>privacyGrainCommand\<close>, of its arguments.
\<close>

lemma sanitize_runs_command:
  "sanitize env f options w =
     (case enter w of
        (Inl t, w0) \<Rightarrow> (Inl t, w0)
      | (Inr a, w0) \<Rightarrow>
          catchBlock ''Sanitization failed''
            (tryBlock env a f
               (outputFormat (withDefault options
                  \<lparr>stripMetadata = None, deterministicEncoding = None, outputFormat = None\<rparr>))
               (sanitizeCommand f options) w0))"
  by (simp add: sanitize_def sanitizeCommand_def Let_def split: prod.splits sum.splits)

lemma applyPrivacyGrain_runs_command:
  "applyPrivacyGrain env f options w =
     (case enter w of
        (Inl t, w0) \<Rightarrow> (Inl t, w0)
      | (Inr a, w0) \<Rightarrow>
          catchBlock ''Privacy grain failed''
            (tryBlock env a f
               (grainOutputFormat (withDefault options
                  \<lparr>grainOutputFormat = None, grainStripMetadata = None\<rparr>))
               (privacyGrainCommand f options) w0))"
  by (simp add: applyPrivacyGrain_def privacyGrainCommand_def Let_def split: prod.splits sum.splits)





lemma currentLoaded_loadedWorld: "currentLoaded loadedWorld"
  by (simp add: currentLoaded_def current_def loadedWorld_def)

lemma currentLoaded_busyWorld: "currentLoaded busyWorld"
  by (simp add: currentLoaded_def current_def busyWorld_def)

lemma not_currentLoaded_initialWorld: "\<not> currentLoaded initialWorld"
  by (simp add: currentLoaded_def current_def initialWorld_def)



text \<open>The virtual file system of an engine object under the updates the hook makes.\<close>

lemma filesOf_setFiles:
  "a < length (engines w) \<Longrightarrow> filesOf a (setFiles a fs w) = fs"
  by (simp add: filesOf_def setFiles_def)

lemma length_engines_setFiles: "length (engines (setFiles a fs w)) = length (engines w)"
  by (simp add: setFiles_def)

lemma length_engines_setState: "length (engines (setState g w)) = length (engines w)"
  by (simp add: setState_def)

lemma filesOf_setState: "filesOf a (setState g w) = filesOf a w"
  by (simp add: filesOf_def setState_def)

text \<open>
  When the \<open>try\<close> block returns a blob, both deletes have run: neither staged name
  is left in the engine's file system.
\<close>

lemma tryBlock_success_cleans:
  assumes "tryBlock env a f fmt args w = (Inr blob, w')" and "a < length (engines w)"
  shows "filesOf a w' (inputFileName f) = None \<and> filesOf a w' (outputFileName f fmt) = None"
  using assms input_neq_output [of f fmt]
  unfolding tryBlock_def writeFile_def exec_def readFile_def deleteFile_def foldl_progress
  by (auto simp: filesOf_setFiles length_engines_setFiles filesOf_setState Let_def
      length_engines_setState
      split: sum.splits option.splits prod.splits if_splits)

lemma catch_try_success_cleans:
  assumes "catchBlock fb (tryBlock env a f fmt args w) = (Inr blob, w')"
    and "a < length (engines w)"
  shows "filesOf a w' (inputFileName f) = None \<and> filesOf a w' (outputFileName f fmt) = None"
proof -
  from assms(1) have "tryBlock env a f fmt args w = (Inr blob, w')"
    by (auto simp: catchBlock_def split: prod.splits sum.splits)
  from tryBlock_success_cleans [OF this assms(2)] show ?thesis .
qed

lemma enter_Inr:
  "enter w = (Inr a, w0) \<Longrightarrow>
     ffmpegRef w = Some a \<and> a < length (engines w) \<and> w0 = setState processingStarted w"
  by (auto simp: enter_def current_def split: option.splits if_splits prod.splits)

text \<open>
  So an operation that returns a blob leaves neither of its staged names in the file
  system of the engine it ran on.
\<close>

lemma success_removes_staged_files:
  "sanitize env f options w = (Inr blob, w') \<Longrightarrow>
     \<exists>a. ffmpegRef w = Some a
        \<and> filesOf a w' (inputFileName f) = None
        \<and> filesOf a w' (outputFileName f (outputFormat (withDefault options
             \<lparr>stripMetadata = None, deterministicEncoding = None, outputFormat = None\<rparr>))) = None"
  "applyPrivacyGrain env f grainOptions w = (Inr blob, w') \<Longrightarrow>
     \<exists>a. ffmpegRef w = Some a
        \<and> filesOf a w' (inputFileName f) = None
        \<and> filesOf a w' (outputFileName f (grainOutputFormat (withDefault grainOptions
             \<lparr>grainOutputFormat = None, grainStripMetadata = None\<rparr>))) = None"
proof -
  assume s: "sanitize env f options w = (Inr blob, w')"
  then obtain a w0 where e: "enter w = (Inr a, w0)"
    by (cases "enter w") (auto simp: sanitize_runs_command split: sum.splits)
  from enter_Inr [OF e] have r: "ffmpegRef w = Some a" and l: "a < length (engines w0)"
    by (auto simp: length_engines_setState)
  from s e have "catchBlock ''Sanitization failed''
      (tryBlock env a f (outputFormat (withDefault options
             \<lparr>stripMetadata = None, deterministicEncoding = None, outputFormat = None\<rparr>))
         (sanitizeCommand f options) w0) = (Inr blob, w')"
    by (simp add: sanitize_runs_command)
  from catch_try_success_cleans [OF this l] r
  show "\<exists>a. ffmpegRef w = Some a
        \<and> filesOf a w' (inputFileName f) = None
        \<and> filesOf a w' (outputFileName f (outputFormat (withDefault options
             \<lparr>stripMetadata = None, deterministicEncoding = None, outputFormat = None\<rparr>))) = None"
    by blast
next
  assume s: "applyPrivacyGrain env f grainOptions w = (Inr blob, w')"
  then obtain a w0 where e: "enter w = (Inr a, w0)"
    by (cases "enter w") (auto simp: applyPrivacyGrain_runs_command split: sum.splits)
  from enter_Inr [OF e] have r: "ffmpegRef w = Some a" and l: "a < length (engines w0)"
    by (auto simp: length_engines_setState)
  from s e have "catchBlock ''Privacy grain failed''
      (tryBlock env a f (grainOutputFormat (withDefault grainOptions
             \<lparr>grainOutputFormat = None, grainStripMetadata = None\<rparr>))
         (privacyGrainCommand f grainOptions) w0) = (Inr blob, w')"
    by (simp add: applyPrivacyGrain_runs_command)
  from catch_try_success_cleans [OF this l] r
  show "\<exists>a. ffmpegRef w = Some a
        \<and> filesOf a w' (inputFileName f) = None
        \<and> filesOf a w' (outputFileName f (grainOutputFormat (withDefault grainOptions
             \<lparr>grainOutputFormat = None, grainStripMetadata = None\<rparr>))) = None"
    by blast
qed



text \<open>The first step of \<open>load\<close> when the referenced engine is not loaded.\<close>

lemma loadEnter_not_loaded:
  "\<not> currentLoaded w \<Longrightarrow>
     loadEnter w =
       (Awaiting (length (engines w)),
        w\<lparr>engines := engines w @ [newFFmpeg], ffmpegRef := Some (length (engines w))\<rparr>)"
  by (simp add: loadEnter_def)

lemma not_loaded_after_loadEnter:
  "\<not> currentLoaded (w\<lparr>engines := engines w @ [newFFmpeg],
                        ffmpegRef := Some (length (engines w))\<rparr>)"
  by (simp add: currentLoaded_def current_def newFFmpeg_def)

subsection \<open>The argument sequence of sanitize\<close>







subsection \<open>The argument sequence of applyPrivacyGrain\<close>




subsection \<open>The presets\<close>

text \<open>
  C6. \<open>removePII(file, {outputFormat: fmt})\<close> and \<open>sanitizeForCI(file, fmt)\<close> are the
  same call of \<open>sanitize\<close>, with the options \<open>{stripMetadata: true,
  deterministicEncoding: true, outputFormat: fmt}\<close>: the same result and the same world
  after it, from every world and with every engine. So are the two with no second
  argument.
\<close>

theorem removePII_is_sanitizeForCI:
  "removePII env f (Some \<lparr>piiOutputFormat = fmt\<rparr>) w = sanitizeForCI env f fmt w
   \<and> removePII env f None w = sanitizeForCI env f None w
   \<and> sanitizeForCI env f fmt w =
       sanitize env f
         (Some \<lparr>stripMetadata = Some True, deterministicEncoding = Some True,
                outputFormat = fmt\<rparr>) w"
  by (simp add: removePII_def sanitizeForCI_def)


subsection \<open>The guard\<close>

text \<open>
  C7. When the referenced engine is not loaded (there is none, or its \<open>loaded\<close> flag is
  false), \<open>sanitize\<close> and \<open>applyPrivacyGrain\<close> reject with the not-loaded error and leave
  the world as it was: no file is written and the status is unchanged, whatever the
  engine would have done.
\<close>

theorem not_loaded_rejected:
  assumes "\<not> currentLoaded w"
  shows "sanitize env f options w = (Inl notLoaded, w)
       \<and> applyPrivacyGrain env f grainOptions w = (Inl notLoaded, w)"
  using assms
  by (auto simp: sanitize_def applyPrivacyGrain_def enter_def currentLoaded_def Let_def
      split: option.splits prod.splits)

theorem not_loaded_rejected_witness:
  "\<not> currentLoaded initialWorld
   \<and> sanitize okEngine photo None initialWorld = (Inl notLoaded, initialWorld)
   \<and> applyPrivacyGrain okEngine photo None initialWorld = (Inl notLoaded, initialWorld)"
proof -
  have h: "\<not> currentLoaded initialWorld"
    by (simp add: currentLoaded_def current_def initialWorld_def)
  show ?thesis
    using h not_loaded_rejected [OF h, of okEngine photo None None] by simp
qed

subsection \<open>The status record\<close>




subsection \<open>A call while another is in flight\<close>




subsection \<open>A delete that throws\<close>




subsection \<open>The staged files after a failure\<close>

text \<open>
  C1 at an input where it fails. The engine is loaded and nothing is staged; the input
  is written under \<open>input.jpg\<close>, \<open>exec\<close> throws, and the \<open>catch\<close> block deletes
  nothing: after \<open>sanitize\<close>, and after \<open>applyPrivacyGrain\<close>, has rejected, the bytes
  of the file are still stored under \<open>input.jpg\<close>.
\<close>

theorem staged_input_left_after_failure:
  "inputFileName photo = ''input.jpg''
   \<and> filesOf 0 loadedWorld ''input.jpg'' = None
   \<and> fst (sanitize execFailsEngine photo None loadedWorld) = Inl (Error ''exec failed'')
   \<and> filesOf 0 (snd (sanitize execFailsEngine photo None loadedWorld)) ''input.jpg''
       = Some (Uint8Array [255, 216, 255])
   \<and> fst (applyPrivacyGrain execFailsEngine photo None loadedWorld) = Inl (Error ''exec failed'')
   \<and> filesOf 0 (snd (applyPrivacyGrain execFailsEngine photo None loadedWorld)) ''input.jpg''
       = Some (Uint8Array [255, 216, 255])"
  by (simp add: runDefs execFailsEngine_def okEngine_def photo_def loadedWorld_def)

subsection \<open>Two load calls\<close>

text \<open>
  C9, as the code has it. A \<open>load\<close> call made while the referenced engine is loaded
  returns at once and makes no engine object. A call made while it is not loaded makes
  its own new engine object and stores it in \<open>ffmpegRef.current\<close>, also when an earlier
  call is still waiting: of two such calls in a row, the first waits for the object at
  the next free address and the second for the one after it, two objects have been
  made, and the reference points to the second.
\<close>

theorem load_not_single_flight:
  "(currentLoaded w \<longrightarrow>
      loadEnter w = (Returned, setState (\<lambda>prev. prev\<lparr>isLoaded := True\<rparr>) w))
   \<and> (\<not> currentLoaded w \<longrightarrow>
        fst (loadEnter w) = Awaiting (length (engines w))
        \<and> fst (loadEnter (snd (loadEnter w))) = Awaiting (Suc (length (engines w)))
        \<and> length (engines (snd (loadEnter (snd (loadEnter w))))) = length (engines w) + 2
        \<and> ffmpegRef (snd (loadEnter (snd (loadEnter w)))) = Some (Suc (length (engines w))))"
proof (intro conjI impI)
  assume "currentLoaded w"
  then show "loadEnter w = (Returned, setState (\<lambda>prev. prev\<lparr>isLoaded := True\<rparr>) w)"
    by (simp add: loadEnter_def)
next
  assume n: "\<not> currentLoaded w"
  let ?w1 = "w\<lparr>engines := engines w @ [newFFmpeg], ffmpegRef := Some (length (engines w))\<rparr>"
  have 1: "loadEnter w = (Awaiting (length (engines w)), ?w1)"
    by (rule loadEnter_not_loaded [OF n])
  have 2: "loadEnter ?w1 =
      (Awaiting (length (engines ?w1)),
       ?w1\<lparr>engines := engines ?w1 @ [newFFmpeg], ffmpegRef := Some (length (engines ?w1))\<rparr>)"
    by (rule loadEnter_not_loaded [OF not_loaded_after_loadEnter])
  show "fst (loadEnter w) = Awaiting (length (engines w))"
    by (simp add: 1)
  show "fst (loadEnter (snd (loadEnter w))) = Awaiting (Suc (length (engines w)))"
    by (simp add: 1 2)
  show "length (engines (snd (loadEnter (snd (loadEnter w))))) = length (engines w) + 2"
    by (simp add: 1 2)
  show "ffmpegRef (snd (loadEnter (snd (loadEnter w)))) = Some (Suc (length (engines w)))"
    by (simp add: 1 2)
qed

theorem load_not_single_flight_witness:
  "currentLoaded loadedWorld
   \<and> fst (loadEnter loadedWorld) = Returned
   \<and> \<not> currentLoaded initialWorld
   \<and> fst (loadEnter initialWorld) = Awaiting 0
   \<and> fst (loadEnter (snd (loadEnter initialWorld))) = Awaiting 1
   \<and> length (engines (snd (loadEnter (snd (loadEnter initialWorld))))) = 2"
  using load_not_single_flight [of loadedWorld] load_not_single_flight [of initialWorld]
    currentLoaded_loadedWorld not_currentLoaded_initialWorld
  by (simp add: initialWorld_def)

text \<open>
  C9 as stated fails: from the initial world two \<open>load\<close> calls, the second made before
  the first resumes, make two engine objects and wait for one each. The first can
  fail while the second succeeds; and when the first succeeds before the second,
  \<open>isLoaded\<close> is true while the referenced engine, the second, is not loaded.
\<close>

theorem concurrent_load_counterexample:
  "fst (loadEnter initialWorld) = Awaiting 0
   \<and> fst (loadEnter oneLoading) = Awaiting 1
   \<and> length (engines oneLoading) = 1
   \<and> length (engines twoLoading) = 2
   \<and> ffmpegRef twoLoading = Some 1
   \<and> fst (loadResume 0 (Some (Error ''network'')) twoLoading) = Inl (Error ''network'')
   \<and> fst (loadResume 1 None (snd (loadResume 0 (Some (Error ''network'')) twoLoading))) = Inr ()
   \<and> isLoaded (state (snd (loadResume 0 None twoLoading)))
   \<and> \<not> currentLoaded (snd (loadResume 0 None twoLoading))"
  by (simp add: oneLoading_def twoLoading_def loadEnter_def loadResume_def currentLoaded_def
      current_def initialWorld_def initialState_def setState_def newFFmpeg_def)

end
